theory Spec2Isabelle
  imports Complex_Main
begin

section \<open>Python values shared by the engines\<close>

text \<open>
  Exceptions of the Python runtime and of the external collaborators. A function that
  can raise returns \<open>exn + 'a\<close>, with \<open>Inl\<close> for the raised exception.
\<close>

datatype exn =
    KeyError string
  | TypeError
  | AttributeError
  | ValueError
  | IndexError
  | JSONDecodeError
  | CalendarApiError
  | IndexUnavailable
  | CompletionError

text \<open>\<open>str(n)\<close> for the integers the f-strings interpolate.\<close>

definition digit_char :: "nat \<Rightarrow> char" where
  "digit_char d = ''0123456789'' ! d"

function str_nat :: "nat \<Rightarrow> string" where
  "str_nat n = (if n < 10 then [digit_char n] else str_nat (n div 10) @ [digit_char (n mod 10)])"
  by pat_completeness auto
termination
  by (relation "measure id") auto

declare str_nat.simps [simp del]

definition str_int :: "int \<Rightarrow> string" where
  "str_int i = (if i < 0 then ''-'' @ str_nat (nat (- i)) else str_nat (nat i))"

definition nl :: string where
  "nl = [CHR 0x0A]"

section \<open>integrations/google\_calendar.py\<close>

subsection \<open>Credentials\<close>

text \<open>
  \<open>token.json\<close> as \<open>get_credentials\<close> finds it: absent, present but not JSON, or a JSON
  object given by its entries (a key that is absent is absent from the list). The values
  \<open>exchange_code_for_tokens\<close> writes are strings, \<open>null\<close> and the list of scopes.
\<close>

datatype json = JNull | JStr string | JStrs "string list"

datatype token_file = Missing | Unparseable | Parsed "(string \<times> json) list"

record credentials =
  token :: json
  refresh_token :: "json option"
  token_uri :: json
  client_id :: json
  client_secret :: json
  scopes :: json

text \<open>\<open>token_data[k]\<close>: a missing key raises \<open>KeyError\<close>.\<close>

definition subscript :: "(string \<times> 'v) list \<Rightarrow> string \<Rightarrow> exn + 'v" where
  "subscript d k = (case map_of d k of None \<Rightarrow> Inl (KeyError k) | Some v \<Rightarrow> Inr v)"

definition get_credentials :: "token_file \<Rightarrow> exn + credentials option" where
  "get_credentials tf =
     (case tf of
        Missing \<Rightarrow> Inr None
      | Unparseable \<Rightarrow> Inl JSONDecodeError
      | Parsed token_data \<Rightarrow>
          (case subscript token_data ''token'' of Inl e \<Rightarrow> Inl e | Inr tok \<Rightarrow>
           case subscript token_data ''token_uri'' of Inl e \<Rightarrow> Inl e | Inr uri \<Rightarrow>
           case subscript token_data ''client_id'' of Inl e \<Rightarrow> Inl e | Inr cid \<Rightarrow>
           case subscript token_data ''client_secret'' of Inl e \<Rightarrow> Inl e | Inr sec \<Rightarrow>
           case subscript token_data ''scopes'' of Inl e \<Rightarrow> Inl e | Inr sc \<Rightarrow>
             Inr (Some \<lparr>token = tok, refresh_token = map_of token_data ''refresh_token'',
                        token_uri = uri, client_id = cid, client_secret = sec, scopes = sc\<rparr>)))"

definition is_authenticated :: "token_file \<Rightarrow> exn + bool" where
  "is_authenticated tf =
     (case get_credentials tf of Inl e \<Rightarrow> Inl e | Inr creds \<Rightarrow> Inr (creds \<noteq> None))"

subsection \<open>Date-times\<close>

text \<open>
  A \<open>datetime\<close> object: its wall-clock reading in microseconds and, when it is aware,
  the UTC offset of its \<open>tzinfo\<close> in microseconds. A naive object has \<open>tzinfo = None\<close>.
\<close>

record datetime =
  wall :: int
  tzinfo :: "int option"

text \<open>
  Ordering comparisons of \<open>datetime\<close>: two aware objects compare by their UTC instants,
  two naive ones by their wall clocks, and a naive with an aware one raises \<open>TypeError\<close>.
\<close>

definition dt_le :: "datetime \<Rightarrow> datetime \<Rightarrow> exn + bool" where
  "dt_le a b =
     (case (tzinfo a, tzinfo b) of
        (Some oa, Some ob) \<Rightarrow> Inr (wall a - oa \<le> wall b - ob)
      | (None, None) \<Rightarrow> Inr (wall a \<le> wall b)
      | _ \<Rightarrow> Inl TypeError)"

definition dt_gt :: "datetime \<Rightarrow> datetime \<Rightarrow> exn + bool" where
  "dt_gt a b =
     (case (tzinfo a, tzinfo b) of
        (Some oa, Some ob) \<Rightarrow> Inr (wall a - oa > wall b - ob)
      | (None, None) \<Rightarrow> Inr (wall a > wall b)
      | _ \<Rightarrow> Inl TypeError)"

text \<open>
  \<open>datetime.now(tz=tz)\<close> at the UTC instant \<open>utc_now\<close>, in a process whose local zone is
  \<open>local_offset\<close> from UTC: without a zone the naive local time, with one the aware
  time in that zone.
\<close>

definition datetime_now :: "int \<Rightarrow> int \<Rightarrow> int option \<Rightarrow> datetime" where
  "datetime_now utc_now local_offset tz =
     (case tz of
        None \<Rightarrow> \<lparr>wall = utc_now + local_offset, tzinfo = None\<rparr>
      | Some off \<Rightarrow> \<lparr>wall = utc_now + off, tzinfo = Some off\<rparr>)"

text \<open>\<open>strftime("%H:%M")\<close>: the wall clock's hour and minute, two digits each.\<close>

definition two_digits :: "nat \<Rightarrow> string" where
  "two_digits n = [digit_char (n div 10), digit_char (n mod 10)]"

definition strftime_HM :: "datetime \<Rightarrow> string" where
  "strftime_HM d =
     two_digits (nat ((wall d div 3600000000) mod 24)) @ '':'' @
     two_digits (nat ((wall d div 60000000) mod 60))"

text \<open>\<open>s.replace("Z", "+00:00")\<close>: every occurrence of the character is replaced.\<close>

definition replace_Z :: "string \<Rightarrow> string" where
  "replace_Z s = concat (map (\<lambda>c. if c = CHR ''Z'' then ''+00:00'' else [c]) s)"

subsection \<open>Events\<close>

text \<open>
  An event of the calendar provider as \<open>get_todays_events\<close> reads it: the optional
  \<open>summary\<close>, and under \<open>start\<close> and \<open>end\<close> an object with an optional \<open>dateTime\<close> and
  an optional \<open>date\<close>. \<open>None\<close> stands for an absent key.
\<close>

record time_value =
  dateTime :: "string option"
  date :: "string option"

record raw_event =
  raw_summary :: "string option"
  raw_start :: "time_value option"
  raw_end :: "time_value option"

text \<open>
  The dictionary appended to \<open>formatted_events\<close>. The values under \<open>start\<close> and \<open>end\<close>
  are the variables \<open>start_str\<close> and \<open>end_str\<close>; they are \<open>None\<close> when the raw value
  passed through was Python's \<open>None\<close>.
\<close>

record event =
  summary :: string
  start_str :: "string option"
  end_str :: "string option"
  is_now :: bool
  is_past :: bool

text \<open>\<open>tv.get("dateTime", tv.get("date"))\<close>\<close>

definition start_or_date :: "time_value \<Rightarrow> string option" where
  "start_or_date tv = (case dateTime tv of Some s \<Rightarrow> Some s | None \<Rightarrow> date tv)"

text \<open>
  The body of the \<open>try\<close> block, for one event. \<open>fromisoformat\<close> is the library parser,
  \<open>utc_now\<close> the instant at which \<open>datetime.now\<close> is called for this event. The result is
  \<open>(start_str, end_str, is_now, is_past)\<close>, or the exception raised inside the block.
  The chained comparison \<open>start_dt <= current_time <= end_dt\<close> evaluates its second half
  only when the first holds.
\<close>

definition try_parse ::
  "(string \<Rightarrow> exn + datetime) \<Rightarrow> int \<Rightarrow> int \<Rightarrow> string option \<Rightarrow> string option
     \<Rightarrow> exn + (string option \<times> string option \<times> bool \<times> bool)" where
  "try_parse fromisoformat utc_now local_offset start end =
     (case start of
        None \<Rightarrow> Inl TypeError
      | Some s \<Rightarrow>
          if CHR ''T'' \<in> set s then
            (case fromisoformat (replace_Z s) of Inl e \<Rightarrow> Inl e | Inr start_dt \<Rightarrow>
             case end of None \<Rightarrow> Inl AttributeError | Some e \<Rightarrow>
             case fromisoformat (replace_Z e) of Inl e \<Rightarrow> Inl e | Inr end_dt \<Rightarrow>
               let current_time = datetime_now utc_now local_offset (tzinfo start_dt) in
               case dt_le start_dt current_time of Inl e \<Rightarrow> Inl e | Inr started \<Rightarrow>
               case (if started then dt_le current_time end_dt else Inr False) of
                 Inl e \<Rightarrow> Inl e | Inr now \<Rightarrow>
               case dt_gt current_time end_dt of Inl e \<Rightarrow> Inl e | Inr past \<Rightarrow>
                 Inr (Some (strftime_HM start_dt), Some (strftime_HM end_dt), now, past))
          else Inr (Some ''All day'', Some ''All day'', False, False))"

text \<open>
  One iteration of the loop over the provider's events. The subscripts \<open>event["start"]\<close>
  and \<open>event["end"]\<close> are outside the \<open>try\<close> block; \<open>except Exception\<close> catches
  everything raised inside it.
\<close>

definition format_event ::
  "(string \<Rightarrow> exn + datetime) \<Rightarrow> int \<Rightarrow> int \<Rightarrow> raw_event \<Rightarrow> exn + event" where
  "format_event fromisoformat utc_now local_offset ev =
     (case raw_start ev of None \<Rightarrow> Inl (KeyError ''start'') | Some sv \<Rightarrow>
      case raw_end ev of None \<Rightarrow> Inl (KeyError ''end'') | Some en \<Rightarrow>
        let start = start_or_date sv; end = start_or_date en;
            (s, e, n, p) =
              (case try_parse fromisoformat utc_now local_offset start end of
                 Inr r \<Rightarrow> r
               | Inl _ \<Rightarrow> (start, end, False, False))
        in Inr \<lparr>summary = (case raw_summary ev of Some t \<Rightarrow> t | None \<Rightarrow> ''No title''),
                 start_str = s, end_str = e, is_now = n, is_past = p\<rparr>)"

text \<open>
  The loop. \<open>clock i\<close> is the UTC instant read by \<open>datetime.now\<close> in iteration \<open>i\<close>.
\<close>

fun format_events ::
  "(string \<Rightarrow> exn + datetime) \<Rightarrow> (nat \<Rightarrow> int) \<Rightarrow> int \<Rightarrow> nat \<Rightarrow> raw_event list
     \<Rightarrow> exn + event list" where
  "format_events fromisoformat clock local_offset i [] = Inr []"
| "format_events fromisoformat clock local_offset i (ev # evs) =
     (case format_event fromisoformat (clock i) local_offset ev of
        Inl e \<Rightarrow> Inl e
      | Inr f \<Rightarrow>
          (case format_events fromisoformat clock local_offset (Suc i) evs of
             Inl e \<Rightarrow> Inl e
           | Inr fs \<Rightarrow> Inr (f # fs)))"

text \<open>
  What the functions of this module read from outside: the token file, the answer of the
  provider's \<open>events().list(...).execute()\<close> (its \<open>items\<close>, or the exception of the
  call), the library parser, the clock and the process's UTC offset.
\<close>

record calendar_env =
  token_json :: token_file
  list_events :: "exn + raw_event list"
  fromisoformat :: "string \<Rightarrow> exn + datetime"
  clock :: "nat \<Rightarrow> int"
  local_offset :: int

definition get_todays_events :: "calendar_env \<Rightarrow> exn + event list" where
  "get_todays_events env =
     (case get_credentials (token_json env) of
        Inl e \<Rightarrow> Inl e
      | Inr None \<Rightarrow> Inr []
      | Inr (Some credentials) \<Rightarrow>
          (case list_events env of
             Inl e \<Rightarrow> Inl e
           | Inr events \<Rightarrow>
               format_events (fromisoformat env) (clock env) (local_offset env) 0 events))"

section \<open>engines/mood\_engine.py\<close>

text \<open>
  The dictionary \<open>get_status\<close> returns. Both \<open>return\<close> statements give the first seven
  keys; \<open>meetings_remaining\<close> and \<open>events\<close> are \<open>None\<close> where the dictionary has no such
  key.
\<close>

record status =
  availability :: string
  energy_estimate :: string
  best_contact_method :: string
  suggested_wait_time :: string
  context_summary :: string
  meeting_count :: nat
  meetings_remaining :: "nat option"
  in_meeting :: bool
  events :: "event list option"

text \<open>The keys of the dictionary a \<open>status\<close> stands for, in the order of the literal.\<close>

definition status_keys :: "status \<Rightarrow> string list" where
  "status_keys s =
     [''availability'', ''energy_estimate'', ''best_contact_method'', ''suggested_wait_time'',
      ''context_summary'', ''meeting_count'']
     @ (case meetings_remaining s of None \<Rightarrow> [] | Some _ \<Rightarrow> [''meetings_remaining''])
     @ [''in_meeting'']
     @ (case events s of None \<Rightarrow> [] | Some _ \<Rightarrow> [''events''])"

text \<open>
  The availability branch of \<open>_analyze_calendar\<close>:
  \<open>(availability, best_contact, wait_time, summary)\<close>.
\<close>

definition availability_logic :: "bool \<Rightarrow> nat \<Rightarrow> string \<times> string \<times> string \<times> string" where
  "availability_logic in_mtg n =
     (if in_mtg then
        (''busy'', ''async'', ''30min'',
         ''Currently in a meeting. Best to send an async message.'')
      else if n = 0 then
        (''open'', ''deep_discussion'', ''now'',
         ''Calendar is clear today. Great time for a longer conversation.'')
      else if n \<le> 2 then
        (''open'', ''quick_sync'', ''now'',
         ''Light day with '' @ str_nat n @ '' meeting(s). Good time to connect.'')
      else if n \<le> 4 then
        (''focused'', ''quick_sync'', ''30min'',
         ''Moderate day with '' @ str_nat n @ '' meetings. Quick sync is fine.'')
      else
        (''busy'', ''async'', ''end_of_day'',
         ''Heavy day with '' @ str_nat n
           @ '' meetings. Async communication preferred.''))"

text \<open>
  The time-of-day branch: from the hour and the availability and summary chosen above,
  \<open>(availability, energy, summary)\<close>.
\<close>

definition energy_logic :: "nat \<Rightarrow> string \<Rightarrow> string \<Rightarrow> string \<times> string \<times> string" where
  "energy_logic current_hour avail summ =
     (if 9 \<le> current_hour \<and> current_hour < 12 then
        (avail, ''high'', summ @ '' Morning energy is typically high.'')
      else if 12 \<le> current_hour \<and> current_hour < 14 then
        (avail, ''medium'', summ @ '' Post-lunch energy dip.'')
      else if 14 \<le> current_hour \<and> current_hour < 16 then
        (avail, ''medium'', summ @ '' Afternoon work mode.'')
      else if current_hour \<ge> 16 then
        (''winding_down'', ''low'', ''End of workday. Best to reach out tomorrow morning.'')
      else
        (avail, ''medium'', summ))"

text \<open>
  \<open>_analyze_calendar(events)\<close>, with the hour of \<open>datetime.now(USER_TIMEZONE)\<close> as an
  argument.
\<close>

definition analyze_calendar :: "event list \<Rightarrow> nat \<Rightarrow> status" where
  "analyze_calendar evs current_hour =
     (let meeting_count = length evs;
          in_meeting = list_ex is_now evs;
          meetings_remaining = length (filter (\<lambda>event. \<not> is_past event) evs);
          (availability0, best_contact, wait_time, summary0) =
            availability_logic in_meeting meeting_count;
          (availability, energy, summary) = energy_logic current_hour availability0 summary0
      in \<lparr>availability = availability,
          energy_estimate = energy,
          best_contact_method = best_contact,
          suggested_wait_time = wait_time,
          context_summary = summary,
          meeting_count = meeting_count,
          meetings_remaining = Some meetings_remaining,
          in_meeting = in_meeting,
          events = Some evs\<rparr>)"

text \<open>The dictionary returned when the calendar is not connected.\<close>

definition not_connected :: status where
  "not_connected =
     \<lparr>availability = ''unknown'',
      energy_estimate = ''unknown'',
      best_contact_method = ''async'',
      suggested_wait_time = ''unknown'',
      context_summary =
        ''Calendar not connected. Connect Google Calendar for availability info.'',
      meeting_count = 0,
      meetings_remaining = None,
      in_meeting = False,
      events = None\<rparr>"

text \<open>
  \<open>get_status\<close>. \<open>current_hour\<close> is the hour of the user's time zone at the call.
\<close>

definition get_status :: "calendar_env \<Rightarrow> nat \<Rightarrow> exn + status" where
  "get_status env current_hour =
     (case is_authenticated (token_json env) of
        Inl e \<Rightarrow> Inl e
      | Inr authenticated \<Rightarrow>
          if \<not> authenticated then Inr not_connected
          else
            (case get_todays_events env of
               Inl e \<Rightarrow> Inl e
             | Inr evs \<Rightarrow> Inr (analyze_calendar evs current_hour)))"

section \<open>engines/context\_engine.py\<close>

text \<open>
  The answer of \<open>collection.query\<close>: one row per query text under each of the three
  keys. A metadata dictionary holds what the ingestion scripts write, strings and
  integers; a distance is a number the engine only passes on.
\<close>

datatype meta_value = MStr string | MInt int

type_synonym metadata = "(string \<times> meta_value) list"

record query_result =
  documents :: "string list list"
  metadatas :: "metadata list list"
  distances :: "real list list"

text \<open>The dictionary \<open>retrieve\<close> builds for each hit.\<close>

record retrieved =
  content :: string
  source :: meta_value
  score :: real

text \<open>An entry of the \<open>messages\<close> array, and of the caller's \<open>history\<close>.\<close>

record message =
  role :: string
  msg_content :: string

text \<open>The dictionary \<open>generate_response\<close> returns.\<close>

record answer =
  response :: string
  sources :: "meta_value list"

text \<open>\<open>rows[0]\<close>: an empty list raises \<open>IndexError\<close>.\<close>

definition first_row :: "'a list \<Rightarrow> exn + 'a" where
  "first_row rows = (case rows of [] \<Rightarrow> Inl IndexError | r # _ \<Rightarrow> Inr r)"

text \<open>\<open>meta.get("source", "unknown")\<close>\<close>

definition get_source :: "metadata \<Rightarrow> meta_value" where
  "get_source meta = (case map_of meta ''source'' of None \<Rightarrow> MStr ''unknown'' | Some v \<Rightarrow> v)"

text \<open>
  \<open>retrieve\<close>, with the index's \<open>query\<close> as an argument. The loop runs over
  \<open>zip(documents, metadatas, distances)\<close>, which stops with the shortest of the three.
\<close>

definition retrieve ::
  "(string \<Rightarrow> nat \<Rightarrow> exn + query_result) \<Rightarrow> string \<Rightarrow> nat \<Rightarrow> exn + retrieved list" where
  "retrieve collection_query query n_results =
     (case collection_query query n_results of Inl e \<Rightarrow> Inl e | Inr results \<Rightarrow>
      case first_row (documents results) of Inl e \<Rightarrow> Inl e | Inr docs \<Rightarrow>
      case first_row (metadatas results) of Inl e \<Rightarrow> Inl e | Inr metas \<Rightarrow>
      case first_row (distances results) of Inl e \<Rightarrow> Inl e | Inr dists \<Rightarrow>
        Inr (map (\<lambda>(doc, meta, dist).
                    \<lparr>content = doc, source = get_source meta, score = dist\<rparr>)
                 (zip docs (zip metas dists))))"

text \<open>\<open>sep.join(parts)\<close> and \<open>str\<close> of a metadata value.\<close>

fun join :: "string \<Rightarrow> string list \<Rightarrow> string" where
  "join sep [] = []"
| "join sep [p] = p"
| "join sep (p # q # ps) = p @ sep @ join sep (q # ps)"

definition str_meta :: "meta_value \<Rightarrow> string" where
  "str_meta v = (case v of MStr s \<Rightarrow> s | MInt i \<Rightarrow> str_int i)"

definition separator :: string where
  "separator = nl @ nl @ ''---'' @ nl @ nl"

text \<open>The live-status block built from the dictionary of \<open>get_status\<close>.\<close>

definition calendar_context :: "status \<Rightarrow> string" where
  "calendar_context mood_status =
     ''[CURRENT STATUS - LIVE FROM GOOGLE CALENDAR]'' @ nl @
     ''- Currently in a meeting: '' @ (if in_meeting mood_status then ''YES'' else ''NO'') @ nl @
     ''- Availability: '' @ availability mood_status @ nl @
     ''- Meetings remaining today: '' @
        str_nat (case meetings_remaining mood_status of None \<Rightarrow> 0 | Some r \<Rightarrow> r) @ nl @
     ''- Total meetings today: '' @ str_nat (meeting_count mood_status) @ nl @
     ''- Energy level: '' @ energy_estimate mood_status @ nl @
     ''- Best time to reach: '' @ suggested_wait_time mood_status @ nl @
     ''- Summary: '' @ context_summary mood_status"

definition context_string :: "status \<Rightarrow> retrieved list \<Rightarrow> string" where
  "context_string mood_status context_docs =
     calendar_context mood_status @ separator @
     join separator
       (map (\<lambda>doc. ''[Source: '' @ str_meta (source doc) @ '']'' @ nl @ content doc)
            context_docs)"

definition system_prompt :: string where
  \<open>system_prompt =
     ''You are Aaran's digital twin - an AI that represents Aaran in professional contexts.'' @ nl @
     nl @
     ''Your role is to:'' @ nl @
     ''1. Answer questions about Aaran's background, experience, projects, and interests'' @ nl @
     ''2. Answer questions about Aaran's current availability using the LIVE calendar data provided'' @ nl @
     ''3. Speak in FIRST PERSON as if you ARE Aaran (use "I", "my", "me")'' @ nl @
     ''4. Be conversational, friendly, and authentic'' @ nl @
     ''5. Use the provided context - don't make things up'' @ nl @
     nl @
     ''You have access to:'' @ nl @
     ''- Aaran's profile documents (resume, bio, projects, interests, work style)'' @ nl @
     ''- LIVE Google Calendar data (current meeting status, today's schedule)'' @ nl @
     nl @
     ''PRIVACY RULES (strictly enforced):'' @ nl @
     ''- Only share PROFESSIONAL/WORK information (9 AM - 5 PM weekdays)'' @ nl @
     ''- NEVER share personal plans: weekends, evenings, vacations, personal appointments'' @ nl @
     ''- If asked about personal time (weekends, after-hours, personal plans), respond:'' @ nl @
     ''  "I'm only able to share professional availability and work-related information. For personal matters, please reach out to Aaran directly."'' @ nl @
     ''- This protects Aaran's privacy while still being helpful for professional contexts'' @ nl @
     nl @
     ''When asked about availability or meetings, use the calendar data to give accurate, real-time answers.'' @ nl @
     ''Keep responses concise but informative (2-4 sentences for simple questions, more for complex ones).''\<close>

definition user_prompt :: "string \<Rightarrow> string \<Rightarrow> string" where
  "user_prompt ctx query =
     ''Here is context about Aaran:'' @ nl @ nl @ ctx @ nl @ nl @ ''---'' @ nl @ nl @
     ''Question: '' @ query @ nl @ nl @ ''Answer as Aaran (first person):''"

text \<open>The \<open>messages\<close> array: the system prompt, the history with its roles mapped, the prompt.\<close>

definition build_messages :: "string \<Rightarrow> message list \<Rightarrow> string \<Rightarrow> message list" where
  "build_messages ctx history query =
     [\<lparr>role = ''system'', msg_content = system_prompt\<rparr>]
     @ map (\<lambda>msg. \<lparr>role = (if role msg = ''twin'' then ''assistant'' else ''user''),
                     msg_content = msg_content msg\<rparr>) history
     @ [\<lparr>role = ''user'', msg_content = user_prompt ctx query\<rparr>]"

text \<open>
  What a \<open>ContextEngine\<close> reads from outside: the calendar module's surroundings, the
  hour in the user's time zone, the index's \<open>query\<close> and the completion call (its
  \<open>choices[0].message.content\<close>, or the exception of the call).
\<close>

record engine_env =
  calendar :: calendar_env
  user_hour :: nat
  collection_query :: "string \<Rightarrow> nat \<Rightarrow> exn + query_result"
  chat_completion :: "message list \<Rightarrow> exn + string"

definition generate_response ::
  "engine_env \<Rightarrow> string \<Rightarrow> retrieved list \<Rightarrow> message list \<Rightarrow> exn + answer" where
  "generate_response env query context_docs history =
     (case get_status (calendar env) (user_hour env) of Inl e \<Rightarrow> Inl e | Inr mood_status \<Rightarrow>
      case chat_completion env
             (build_messages (context_string mood_status context_docs) history query) of
        Inl e \<Rightarrow> Inl e
      | Inr text \<Rightarrow> Inr \<lparr>response = text, sources = map source context_docs\<rparr>)"

definition ask :: "engine_env \<Rightarrow> string \<Rightarrow> message list \<Rightarrow> exn + answer" where
  "ask env query history =
     (case retrieve (collection_query env) query 3 of
        Inl e \<Rightarrow> Inl e
      | Inr context_docs \<Rightarrow> generate_response env query context_docs history)"

section \<open>Notions the claims use\<close>



text \<open>The raw \<open>start\<close> and \<open>end\<close> values the loop reads from an event that has both entries.\<close>

definition raw_times :: "raw_event \<Rightarrow> (string option \<times> string option) option" where
  "raw_times ev =
     (case (raw_start ev, raw_end ev) of
        (Some sv, Some en) \<Rightarrow> Some (start_or_date sv, start_or_date en)
      | _ \<Rightarrow> None)"

text \<open>
  The parsed start and end of a timed event, and the UTC instant of an aware \<open>datetime\<close>.
\<close>

definition timed :: "(string \<Rightarrow> exn + datetime) \<Rightarrow> raw_event \<Rightarrow> (datetime \<times> datetime) option" where
  "timed parse ev =
     (case raw_times ev of
        Some (Some s, Some e) \<Rightarrow>
          if CHR ''T'' \<in> set s then
            (case (parse (replace_Z s), parse (replace_Z e)) of
               (Inr start_dt, Inr end_dt) \<Rightarrow> Some (start_dt, end_dt)
             | _ \<Rightarrow> None)
          else None
      | _ \<Rightarrow> None)"

definition instant :: "datetime \<Rightarrow> int option" where
  "instant d = (case tzinfo d of None \<Rightarrow> None | Some off \<Rightarrow> Some (wall d - off))"

section \<open>Concrete inputs\<close>

text \<open>A meeting that is running, one that is over and an all-day entry.\<close>

definition standup :: event where
  "standup = \<lparr>summary = ''Standup'', start_str = Some ''16:30'', end_str = Some ''17:30'',
               is_now = True, is_past = False\<rparr>"

definition review :: event where
  "review = \<lparr>summary = ''Design review'', start_str = Some ''09:00'', end_str = Some ''10:00'',
              is_now = False, is_past = True\<rparr>"

definition offsite :: event where
  "offsite = \<lparr>summary = ''Offsite'', start_str = Some ''All day'', end_str = Some ''All day'',
               is_now = False, is_past = False\<rparr>"

text \<open>
  A connected calendar: a complete token file, a parser that knows the four timestamps of
  the day's timed events, and four events of the provider, one of them with date-times
  the parser rejects. Instants are microseconds from the day's midnight UTC; the clock
  reads 16:30 UTC, which is 09:30 at the offset of the stand-up.
\<close>

definition connected_token :: token_file where
  "connected_token =
     Parsed [(''token'', JStr ''ya29.a0''), (''refresh_token'', JStr ''1//0g''),
             (''token_uri'', JStr ''https://oauth2.googleapis.com/token''),
             (''client_id'', JStr ''twin.apps.googleusercontent.com''),
             (''client_secret'', JStr ''GOCSPX''),
             (''scopes'', JStrs [''https://www.googleapis.com/auth/calendar.readonly''])]"

definition hour_us :: int where
  "hour_us = 3600000000"

definition sample_fromisoformat :: "string \<Rightarrow> exn + datetime" where
  "sample_fromisoformat s =
     (if s = ''2024-05-06T09:00:00-07:00'' then Inr \<lparr>wall = 9 * hour_us, tzinfo = Some (- 7 * hour_us)\<rparr>
      else if s = ''2024-05-06T10:00:00-07:00'' then Inr \<lparr>wall = 10 * hour_us, tzinfo = Some (- 7 * hour_us)\<rparr>
      else if s = ''2024-05-06T08:00:00+00:00'' then Inr \<lparr>wall = 8 * hour_us, tzinfo = Some 0\<rparr>
      else if s = ''2024-05-06T08:30:00+00:00'' then Inr \<lparr>wall = 8 * hour_us + 1800000000, tzinfo = Some 0\<rparr>
      else Inl ValueError)"

definition raw_standup :: raw_event where
  "raw_standup = \<lparr>raw_summary = Some ''Standup'',
       raw_start = Some \<lparr>dateTime = Some ''2024-05-06T09:00:00-07:00'', date = None\<rparr>,
       raw_end = Some \<lparr>dateTime = Some ''2024-05-06T10:00:00-07:00'', date = None\<rparr>\<rparr>"

definition raw_early :: raw_event where
  "raw_early = \<lparr>raw_summary = None,
       raw_start = Some \<lparr>dateTime = Some ''2024-05-06T08:00:00Z'', date = None\<rparr>,
       raw_end = Some \<lparr>dateTime = Some ''2024-05-06T08:30:00Z'', date = None\<rparr>\<rparr>"

definition raw_offsite :: raw_event where
  "raw_offsite = \<lparr>raw_summary = Some ''Offsite'',
       raw_start = Some \<lparr>dateTime = None, date = Some ''2024-05-06''\<rparr>,
       raw_end = Some \<lparr>dateTime = None, date = Some ''2024-05-07''\<rparr>\<rparr>"

definition raw_broken :: raw_event where
  "raw_broken = \<lparr>raw_summary = Some ''Migrated entry'',
       raw_start = Some \<lparr>dateTime = Some ''06/05/2024 T 11h'', date = None\<rparr>,
       raw_end = Some \<lparr>dateTime = Some ''06/05/2024 T 12h'', date = None\<rparr>\<rparr>"

definition connected_calendar :: calendar_env where
  "connected_calendar =
     \<lparr>token_json = connected_token,
      list_events = Inr [raw_early, raw_broken, raw_standup, raw_offsite],
      fromisoformat = sample_fromisoformat,
      clock = (\<lambda>i. 16 * hour_us + 1800000000 + int i),
      local_offset = 2 * hour_us\<rparr>"

definition offline_calendar :: calendar_env where
  "offline_calendar = connected_calendar\<lparr>token_json := Missing\<rparr>"

text \<open>An index with three hits, one that has none, one that cannot be reached; two completions.\<close>

definition sample_index :: "string \<Rightarrow> nat \<Rightarrow> exn + query_result" where
  "sample_index q n =
     Inr \<lparr>documents = [[''Aaran studied computer science.'', ''Slide 2: the product'', ''Aaran interned twice.'']],
          metadatas = [[[(''source'', MStr ''resume.md'')],
                        [(''source'', MStr ''Pitch (Slide 2)''), (''type'', MStr ''slides''),
                         (''presentation'', MStr ''Pitch''), (''slide_number'', MInt 2)],
                        [(''source'', MStr ''resume.md'')]]],
          distances = [[1 / 4, 1 / 2, 3 / 4]]\<rparr>"

definition empty_index :: "string \<Rightarrow> nat \<Rightarrow> exn + query_result" where
  "empty_index q n = Inr \<lparr>documents = [[]], metadatas = [[]], distances = [[]]\<rparr>"

definition unreachable_index :: "string \<Rightarrow> nat \<Rightarrow> exn + query_result" where
  "unreachable_index q n = Inl IndexUnavailable"

definition canned_completion :: "message list \<Rightarrow> exn + string" where
  "canned_completion messages = Inr ''I am in a meeting right now, so a message works best.''"

definition silent_completion :: "message list \<Rightarrow> exn + string" where
  "silent_completion messages = Inr ''''"

definition sample_engine :: engine_env where
  "sample_engine = \<lparr>calendar = connected_calendar, user_hour = 10,
                     collection_query = sample_index, chat_completion = canned_completion\<rparr>"

definition offline_engine :: engine_env where
  "offline_engine = sample_engine\<lparr>calendar := offline_calendar\<rparr>"

definition empty_engine :: engine_env where
  "empty_engine = sample_engine\<lparr>collection_query := empty_index\<rparr>"

definition unreachable_engine :: engine_env where
  "unreachable_engine = sample_engine\<lparr>collection_query := unreachable_index\<rparr>"

definition silent_engine :: engine_env where
  "silent_engine = empty_engine\<lparr>chat_completion := silent_completion\<rparr>"

section \<open>The availability classifier\<close>

lemma analyze_calendar_fields:
  "meeting_count (analyze_calendar evs h) = length evs"
  "in_meeting (analyze_calendar evs h) = list_ex is_now evs"
  "meetings_remaining (analyze_calendar evs h)
     = Some (length (filter (\<lambda>event. \<not> is_past event) evs))"
  "events (analyze_calendar evs h) = Some evs"
  by (simp_all add: analyze_calendar_def Let_def split: prod.splits)

text \<open>
  C1, as the claim states it, fails: with a running meeting at 17 o'clock the availability
  is not \<open>busy\<close>, because the time-of-day branch has replaced it.
\<close>

theorem active_event_busy_counterexample:
  "list_ex is_now
     [\<lparr>summary = ''Standup'', start_str = Some ''16:30'', end_str = Some ''17:30'',
       is_now = True, is_past = False\<rparr>]
   \<and> availability
       (analyze_calendar
          [\<lparr>summary = ''Standup'', start_str = Some ''16:30'', end_str = Some ''17:30'',
            is_now = True, is_past = False\<rparr>] 17) \<noteq> ''busy''"
  by (simp add: analyze_calendar_def availability_logic_def energy_logic_def)

text \<open>
  C1, amended: for every event list containing an event that is active now, the
  classifier yields \<open>best_contact_method = async\<close> and \<open>suggested_wait_time = 30min\<close>
  whatever the meeting count and the hour; the availability is \<open>busy\<close> while the hour is
  below 16 and \<open>winding_down\<close> from 16 on.
\<close>

theorem active_event_async_30min:
  assumes "e \<in> set evs" and "is_now e"
  shows "best_contact_method (analyze_calendar evs h) = ''async''
       \<and> suggested_wait_time (analyze_calendar evs h) = ''30min''
       \<and> availability (analyze_calendar evs h)
           = (if h < 16 then ''busy'' else ''winding_down'')"
proof -
  from assms have "list_ex is_now evs"
    by (auto simp: list_ex_iff)
  then show ?thesis
    by (simp add: analyze_calendar_def availability_logic_def energy_logic_def)
qed

theorem active_event_async_30min_witness:
  "standup \<in> set [review, standup, offsite] \<and> is_now standup
   \<and> best_contact_method (analyze_calendar [review, standup, offsite] 10) = ''async''
   \<and> suggested_wait_time (analyze_calendar [review, standup, offsite] 10) = ''30min''
   \<and> availability (analyze_calendar [review, standup, offsite] 10) = ''busy''"
  using active_event_async_30min [of standup "[review, standup, offsite]" 10]
  by (simp add: standup_def)

text \<open>
  C2: for every event list, from hour 16 on the classifier yields
  \<open>availability = winding_down\<close> and \<open>energy_estimate = low\<close>, and the summary is the fixed
  end-of-workday sentence, whatever the in-meeting and meeting-count branches chose.
\<close>

theorem late_hour_winding_down:
  assumes "16 \<le> h"
  shows "availability (analyze_calendar evs h) = ''winding_down''
       \<and> energy_estimate (analyze_calendar evs h) = ''low''
       \<and> context_summary (analyze_calendar evs h)
           = ''End of workday. Best to reach out tomorrow morning.''"
  using assms
  by (simp add: analyze_calendar_def energy_logic_def Let_def split: prod.splits)

theorem late_hour_winding_down_witness:
  "(16::nat) \<le> 17
   \<and> availability (analyze_calendar [review, standup, offsite] 17) = ''winding_down''
   \<and> energy_estimate (analyze_calendar [review, standup, offsite] 17) = ''low''
   \<and> context_summary (analyze_calendar [review, standup, offsite] 17)
       = ''End of workday. Best to reach out tomorrow morning.''"
  using late_hour_winding_down [of 17 "[review, standup, offsite]"]
  by simp

text \<open>
  C8: for every event list the classifier's status has \<open>meetings_remaining\<close>, the number
  of events that are not past, and it is at most \<open>meeting_count\<close>.
\<close>

theorem meetings_remaining_le_meeting_count:
  "\<exists>r. meetings_remaining (analyze_calendar evs h) = Some r
     \<and> r = length (filter (\<lambda>event. \<not> is_past event) evs)
     \<and> r \<le> meeting_count (analyze_calendar evs h)"
  by (simp add: analyze_calendar_fields)

section \<open>Credentials and the event normalizer\<close>

lemma is_authenticated_False_iff: "is_authenticated tf = Inr False \<longleftrightarrow> tf = Missing"
  by (cases tf) (auto simp: is_authenticated_def get_credentials_def split: sum.splits option.splits)

lemma get_status_cases:
  assumes "get_status env h = Inr s"
  shows "(is_authenticated (token_json env) = Inr False \<and> s = not_connected)
       \<or> (is_authenticated (token_json env) = Inr True
            \<and> (\<exists>evs. get_todays_events env = Inr evs \<and> s = analyze_calendar evs h))"
  using assms by (auto simp: get_status_def split: sum.splits if_splits)


lemma format_event_total:
  assumes "raw_start ev = Some sv" and "raw_end ev = Some en"
  shows "\<exists>f. format_event parse now off ev = Inr f"
  using assms by (simp add: format_event_def Let_def split: prod.splits)


lemma format_events_total:
  assumes "\<forall>ev \<in> set evs. raw_start ev \<noteq> None \<and> raw_end ev \<noteq> None"
  shows "\<exists>fs. format_events parse clk off i evs = Inr fs \<and> length fs = length evs
            \<and> (\<forall>k < length evs. format_event parse (clk (i + k)) off (evs ! k) = Inr (fs ! k))"
  using assms
proof (induction evs arbitrary: i)
  case Nil
  then show ?case by simp
next
  case (Cons ev evs)
  then obtain sv en where k: "raw_start ev = Some sv" "raw_end ev = Some en" by auto
  from format_event_total [OF k] obtain f where f: "format_event parse (clk i) off ev = Inr f" by blast
  from Cons obtain fs where fs: "format_events parse clk off (Suc i) evs = Inr fs" "length fs = length evs"
     "\<forall>k < length evs. format_event parse (clk (Suc i + k)) off (evs ! k) = Inr (fs ! k)"
    by (metis list.set_intros(2))
  have "\<forall>k < length (ev # evs). format_event parse (clk (i + k)) off ((ev # evs) ! k) = Inr ((f # fs) ! k)"
  proof (intro allI impI)
    fix k assume "k < length (ev # evs)"
    then show "format_event parse (clk (i + k)) off ((ev # evs) ! k) = Inr ((f # fs) ! k)"
      using f fs(3) by (cases k) auto
  qed
  with f fs show ?case by simp
qed

lemma dt_exclusive:
  assumes "dt_le c e = Inr True" shows "dt_gt c e \<noteq> Inr True"
  using assms by (auto simp: dt_le_def dt_gt_def split: option.splits)

lemma try_parse_exclusive:
  assumes "try_parse parse now off start end = Inr (s, e, n, p)"
  shows "\<not> (n \<and> p)"
  using assms dt_exclusive
  by (auto simp: try_parse_def Let_def split: option.splits sum.splits if_splits)

lemma format_event_exclusive:
  assumes "format_event parse now off ev = Inr f"
  shows "\<not> (is_now f \<and> is_past f)"
proof (cases "try_parse parse now off (start_or_date (the (raw_start ev))) (start_or_date (the (raw_end ev)))")
  case (Inl a)
  with assms show ?thesis
    by (auto simp: format_event_def Let_def split: option.splits)
next
  case (Inr r)
  obtain s e n p where r: "r = (s, e, n, p)" by (cases r) auto
  from Inr r try_parse_exclusive have "\<not> (n \<and> p)" by blast
  with assms Inr r show ?thesis
    by (auto simp: format_event_def Let_def split: option.splits)
qed

lemma format_events_exclusive:
  assumes "format_events parse clk off i evs = Inr fs" and "f \<in> set fs"
  shows "\<not> (is_now f \<and> is_past f)"
  using assms
proof (induction evs arbitrary: i fs)
  case Nil
  then show ?case by simp
next
  case (Cons ev evs)
  from Cons.prems(1) obtain g gs where g: "format_event parse (clk i) off ev = Inr g"
      and gs: "format_events parse clk off (Suc i) evs = Inr gs" and fs: "fs = g # gs"
    by (auto split: sum.splits)
  from Cons.prems(2) fs have "f = g \<or> f \<in> set gs" by auto
  then show ?case
  proof
    assume "f = g"
    with g show ?thesis using format_event_exclusive by blast
  next
    assume "f \<in> set gs"
    with gs show ?thesis using Cons.IH by blast
  qed
qed

lemma connected_events:
  "get_todays_events connected_calendar =
     Inr [\<lparr>summary = ''No title'', start_str = Some ''08:00'', end_str = Some ''08:30'', is_now = False, is_past = True\<rparr>,
          \<lparr>summary = ''Migrated entry'', start_str = Some ''06/05/2024 T 11h'', end_str = Some ''06/05/2024 T 12h'', is_now = False, is_past = False\<rparr>,
          \<lparr>summary = ''Standup'', start_str = Some ''09:00'', end_str = Some ''10:00'', is_now = True, is_past = False\<rparr>,
          \<lparr>summary = ''Offsite'', start_str = Some ''All day'', end_str = Some ''All day'', is_now = False, is_past = False\<rparr>]"
  by code_simp

lemma connected_credentials:
  "\<exists>c. get_credentials (token_json connected_calendar) = Inr (Some c)"
  by (simp add: connected_calendar_def connected_token_def get_credentials_def subscript_def)

lemma connected_authenticated:
  "is_authenticated (token_json connected_calendar) = Inr True"
  by (simp add: connected_calendar_def connected_token_def is_authenticated_def
                get_credentials_def subscript_def)

lemma offline_not_authenticated:
  "is_authenticated (token_json offline_calendar) = Inr False"
  by (simp add: offline_calendar_def connected_calendar_def is_authenticated_def get_credentials_def)

lemma connected_status:
  "get_status connected_calendar h =
     Inr (analyze_calendar
       [\<lparr>summary = ''No title'', start_str = Some ''08:00'', end_str = Some ''08:30'', is_now = False, is_past = True\<rparr>,
        \<lparr>summary = ''Migrated entry'', start_str = Some ''06/05/2024 T 11h'', end_str = Some ''06/05/2024 T 12h'', is_now = False, is_past = False\<rparr>,
        \<lparr>summary = ''Standup'', start_str = Some ''09:00'', end_str = Some ''10:00'', is_now = True, is_past = False\<rparr>,
        \<lparr>summary = ''Offsite'', start_str = Some ''All day'', end_str = Some ''All day'', is_now = False, is_past = False\<rparr>] h)"
  by (simp add: get_status_def connected_authenticated connected_events)




lemma get_todays_events_exclusive:
  assumes "get_todays_events env = Inr fs" and "f \<in> set fs"
  shows "\<not> (is_now f \<and> is_past f)"
proof -
  from assms(1) have "fs = [] \<or> format_events (fromisoformat env) (clock env) (local_offset env) 0
                   (projr (list_events env)) = Inr fs"
    by (auto simp: get_todays_events_def split: sum.splits option.splits)
  with assms(2) show ?thesis
    using format_events_exclusive by fastforce
qed

lemma format_event_aware:
  assumes "timed parse ev = Some (sd, ed)" and "instant sd = Some a" and "instant ed = Some b"
  shows "format_event parse now off ev =
           Inr \<lparr>summary = (case raw_summary ev of Some t \<Rightarrow> t | None \<Rightarrow> ''No title''),
                start_str = Some (strftime_HM sd), end_str = Some (strftime_HM ed),
                is_now = (a \<le> now \<and> now \<le> b), is_past = (b < now)\<rparr>"
  using assms
  by (auto simp: timed_def raw_times_def instant_def format_event_def try_parse_def Let_def
                 dt_le_def dt_gt_def datetime_now_def
           split: option.splits sum.splits if_splits)

lemma get_todays_events_total:
  assumes "get_credentials (token_json env) = Inr (Some c)"
      and "list_events env = Inr evs"
      and "\<forall>ev \<in> set evs. raw_start ev \<noteq> None \<and> raw_end ev \<noteq> None"
  shows "\<exists>fs. get_todays_events env = Inr fs \<and> length fs = length evs
           \<and> (\<forall>k < length evs.
                 format_event (fromisoformat env) (clock env k) (local_offset env) (evs ! k)
                   = Inr (fs ! k))"
proof -
  from format_events_total [OF assms(3), of "fromisoformat env" "clock env" "local_offset env" 0]
  obtain fs where fs:
      "format_events (fromisoformat env) (clock env) (local_offset env) 0 evs = Inr fs"
      "length fs = length evs"
      "\<forall>k < length evs.
         format_event (fromisoformat env) (clock env (0 + k)) (local_offset env) (evs ! k)
           = Inr (fs ! k)"
    by blast
  have "get_todays_events env = Inr fs"
    using assms(1,2) fs(1) by (simp add: get_todays_events_def)
  with fs(2,3) show ?thesis by simp
qed

lemma aware_flags:
  assumes "timed parse ev = Some (sd, ed)" and "instant sd = Some a" and "instant ed = Some b"
      and "format_event parse now off ev = Inr f"
  shows "(is_now f \<longleftrightarrow> a \<le> now \<and> now \<le> b) \<and> (is_past f \<longleftrightarrow> now > b)"
  using format_event_aware [OF assms(1-3), of now off] assms(4) by auto

text \<open>
  C9: no event returned by \<open>get_todays_events\<close> has both flags set; and when the
  credentials are there and the provider has answered, every event carrying its \<open>start\<close>
  and \<open>end\<close> entries, the normalized event at each position \<open>k\<close> whose raw event is timed
  and parses to aware date-times, with UTC instants \<open>a\<close> and \<open>b\<close>, has \<open>is_now\<close> exactly
  when \<open>a \<le> now \<le> b\<close> and \<open>is_past\<close> exactly when \<open>now > b\<close>, where \<open>now\<close> is the instant
  the clock shows in that iteration; and it is the same event whatever the UTC offset of
  the process: the current time is taken in the zone of the event's start.
\<close>

theorem flags_exclusive_and_zone_independent:
  "(\<forall>fs f. get_todays_events env = Inr fs \<longrightarrow> f \<in> set fs \<longrightarrow> \<not> (is_now f \<and> is_past f))
   \<and> (\<forall>c evs. get_credentials (token_json env) = Inr (Some c) \<longrightarrow> list_events env = Inr evs
         \<longrightarrow> (\<forall>ev \<in> set evs. raw_start ev \<noteq> None \<and> raw_end ev \<noteq> None)
         \<longrightarrow> (\<exists>fs. get_todays_events env = Inr fs \<and> length fs = length evs
               \<and> (\<forall>k < length evs. \<forall>sd ed a b.
                     timed (fromisoformat env) (evs ! k) = Some (sd, ed)
                     \<longrightarrow> instant sd = Some a \<longrightarrow> instant ed = Some b
                     \<longrightarrow> (is_now (fs ! k) \<longleftrightarrow> a \<le> clock env k \<and> clock env k \<le> b)
                         \<and> (is_past (fs ! k) \<longleftrightarrow> clock env k > b)
                         \<and> (\<forall>off'. \<exists>gs. get_todays_events (env\<lparr>local_offset := off'\<rparr>) = Inr gs
                                \<and> gs ! k = fs ! k))))"
proof (intro conjI allI impI)
  fix fs f assume "get_todays_events env = Inr fs" "f \<in> set fs"
  then show "\<not> (is_now f \<and> is_past f)" by (rule get_todays_events_exclusive)
next
  fix c evs
  assume h: "get_credentials (token_json env) = Inr (Some c)" "list_events env = Inr evs"
            "\<forall>ev \<in> set evs. raw_start ev \<noteq> None \<and> raw_end ev \<noteq> None"
  from get_todays_events_total [OF h] obtain fs where fs:
      "get_todays_events env = Inr fs" "length fs = length evs"
      "\<forall>k < length evs.
         format_event (fromisoformat env) (clock env k) (local_offset env) (evs ! k) = Inr (fs ! k)"
    by blast
  have "(is_now (fs ! k) \<longleftrightarrow> a \<le> clock env k \<and> clock env k \<le> b)
        \<and> (is_past (fs ! k) \<longleftrightarrow> clock env k > b)
        \<and> (\<forall>off'. \<exists>gs. get_todays_events (env\<lparr>local_offset := off'\<rparr>) = Inr gs
               \<and> gs ! k = fs ! k)"
    if k: "k < length evs"
      and t: "timed (fromisoformat env) (evs ! k) = Some (sd, ed)"
             "instant sd = Some a" "instant ed = Some b"
    for k sd ed a b
  proof -
    from fs(3) k have f: "format_event (fromisoformat env) (clock env k) (local_offset env) (evs ! k)
                            = Inr (fs ! k)"
      by blast
    have "\<exists>gs. get_todays_events (env\<lparr>local_offset := off'\<rparr>) = Inr gs \<and> gs ! k = fs ! k" for off'
    proof -
      let ?env = "env\<lparr>local_offset := off'\<rparr>"
      have "get_credentials (token_json ?env) = Inr (Some c)" "list_events ?env = Inr evs"
        using h(1,2) by simp_all
      from get_todays_events_total [OF this h(3)] k obtain gs where
          gs: "get_todays_events ?env = Inr gs"
              "format_event (fromisoformat env) (clock env k) off' (evs ! k) = Inr (gs ! k)"
        by auto
      from gs(2) f have "gs ! k = fs ! k"
        by (simp add: format_event_aware [OF t])
      with gs(1) show ?thesis by blast
    qed
    with aware_flags [OF t f] show ?thesis by blast
  qed
  with fs(1,2) show "\<exists>fs. get_todays_events env = Inr fs \<and> length fs = length evs
               \<and> (\<forall>k < length evs. \<forall>sd ed a b.
                     timed (fromisoformat env) (evs ! k) = Some (sd, ed)
                     \<longrightarrow> instant sd = Some a \<longrightarrow> instant ed = Some b
                     \<longrightarrow> (is_now (fs ! k) \<longleftrightarrow> a \<le> clock env k \<and> clock env k \<le> b)
                         \<and> (is_past (fs ! k) \<longleftrightarrow> clock env k > b)
                         \<and> (\<forall>off'. \<exists>gs. get_todays_events (env\<lparr>local_offset := off'\<rparr>) = Inr gs
                                \<and> gs ! k = fs ! k))"
    by blast
qed

theorem flags_exclusive_and_zone_independent_witness:
  "(\<exists>fs f. get_todays_events connected_calendar = Inr fs \<and> f \<in> set fs
          \<and> \<not> (is_now f \<and> is_past f))
   \<and> (\<exists>c. get_credentials (token_json connected_calendar) = Inr (Some c))
   \<and> list_events connected_calendar = Inr [raw_early, raw_broken, raw_standup, raw_offsite]
   \<and> raw_start raw_early \<noteq> None \<and> raw_end raw_early \<noteq> None
   \<and> raw_start raw_broken \<noteq> None \<and> raw_end raw_broken \<noteq> None
   \<and> raw_start raw_standup \<noteq> None \<and> raw_end raw_standup \<noteq> None
   \<and> raw_start raw_offsite \<noteq> None \<and> raw_end raw_offsite \<noteq> None
   \<and> timed (fromisoformat connected_calendar) raw_standup
       = Some (\<lparr>wall = 9 * hour_us, tzinfo = Some (- 7 * hour_us)\<rparr>,
               \<lparr>wall = 10 * hour_us, tzinfo = Some (- 7 * hour_us)\<rparr>)
   \<and> instant \<lparr>wall = 9 * hour_us, tzinfo = Some (- 7 * hour_us)\<rparr> = Some (16 * hour_us)
   \<and> instant \<lparr>wall = 10 * hour_us, tzinfo = Some (- 7 * hour_us)\<rparr> = Some (17 * hour_us)
   \<and> clock connected_calendar 2 = 16 * hour_us + 1800000002
   \<and> (\<exists>fs. get_todays_events connected_calendar = Inr fs \<and> length fs = 4
         \<and> is_now (fs ! 2) \<and> \<not> is_past (fs ! 2))"
proof -
  let ?evs = "[raw_early, raw_broken, raw_standup, raw_offsite]"
  let ?sd = "\<lparr>wall = 9 * hour_us, tzinfo = Some (- 7 * hour_us)\<rparr>"
  let ?ed = "\<lparr>wall = 10 * hour_us, tzinfo = Some (- 7 * hour_us)\<rparr>"
  obtain gs g where n: "get_todays_events connected_calendar = Inr gs" "g \<in> set gs"
    using connected_events by (metis list.set_intros(1))
  obtain c where c: "get_credentials (token_json connected_calendar) = Inr (Some c)"
    using connected_credentials by blast
  have l: "list_events connected_calendar = Inr ?evs"
    by (simp add: connected_calendar_def)
  have k: "\<forall>ev \<in> set ?evs. raw_start ev \<noteq> None \<and> raw_end ev \<noteq> None"
    by (simp add: raw_early_def raw_broken_def raw_standup_def raw_offsite_def)
  have t: "timed (fromisoformat connected_calendar) (?evs ! 2) = Some (?sd, ?ed)"
    by (simp add: timed_def raw_times_def raw_standup_def start_or_date_def replace_Z_def
                  sample_fromisoformat_def connected_calendar_def)
  have a: "instant ?sd = Some (16 * hour_us)" and b: "instant ?ed = Some (17 * hour_us)"
    by (simp_all add: instant_def)
  have m: "clock connected_calendar 2 = 16 * hour_us + 1800000002"
    by (simp add: connected_calendar_def)
  have h: "16 * hour_us \<le> clock connected_calendar 2"
          "clock connected_calendar 2 \<le> 17 * hour_us"
          "\<not> clock connected_calendar 2 > 17 * hour_us"
    by (simp_all add: m hour_us_def)
  have i: "(2::nat) < length ?evs" by simp
  note inst = flags_exclusive_and_zone_independent [of connected_calendar]
  from inst have x: "\<forall>fs f. get_todays_events connected_calendar = Inr fs \<longrightarrow> f \<in> set fs
                     \<longrightarrow> \<not> (is_now f \<and> is_past f)"
    by blast
  from inst c l k obtain fs where fs: "get_todays_events connected_calendar = Inr fs"
      "length fs = length ?evs"
      "\<forall>k < length ?evs. \<forall>sd ed a b.
          timed (fromisoformat connected_calendar) (?evs ! k) = Some (sd, ed)
          \<longrightarrow> instant sd = Some a \<longrightarrow> instant ed = Some b
          \<longrightarrow> (is_now (fs ! k) \<longleftrightarrow> a \<le> clock connected_calendar k \<and> clock connected_calendar k \<le> b)
              \<and> (is_past (fs ! k) \<longleftrightarrow> clock connected_calendar k > b)
              \<and> (\<forall>off'. \<exists>gs. get_todays_events (connected_calendar\<lparr>local_offset := off'\<rparr>) = Inr gs
                     \<and> gs ! k = fs ! k)"
    by blast
  from fs(3) i t a b have "(is_now (fs ! 2) \<longleftrightarrow> 16 * hour_us \<le> clock connected_calendar 2
                               \<and> clock connected_calendar 2 \<le> 17 * hour_us)
                         \<and> (is_past (fs ! 2) \<longleftrightarrow> clock connected_calendar 2 > 17 * hour_us)"
    by blast
  with h have "is_now (fs ! 2) \<and> \<not> is_past (fs ! 2)" by blast
  with fs(1,2) have e: "\<exists>fs. get_todays_events connected_calendar = Inr fs \<and> length fs = 4
         \<and> is_now (fs ! 2) \<and> \<not> is_past (fs ! 2)"
    by auto
  from x n have "\<not> (is_now g \<and> is_past g)" by blast
  with n have e0: "\<exists>fs f. get_todays_events connected_calendar = Inr fs \<and> f \<in> set fs
          \<and> \<not> (is_now f \<and> is_past f)"
    by blast
  from t have t': "timed (fromisoformat connected_calendar) raw_standup = Some (?sd, ?ed)"
    by simp
  from k have k': "raw_start raw_early \<noteq> None \<and> raw_end raw_early \<noteq> None
   \<and> raw_start raw_broken \<noteq> None \<and> raw_end raw_broken \<noteq> None
   \<and> raw_start raw_standup \<noteq> None \<and> raw_end raw_standup \<noteq> None
   \<and> raw_start raw_offsite \<noteq> None \<and> raw_end raw_offsite \<noteq> None"
    by simp
  from e0 c l k' t' a b m e show ?thesis by blast
qed

section \<open>The status\<close>

text \<open>
  C10: in every status returned by \<open>get_status\<close>, \<open>in_meeting\<close> implies a meeting count
  of at least one, and the status of a calendar that is not authenticated has
  \<open>in_meeting\<close> false and a meeting count of zero.
\<close>

theorem in_meeting_implies_meeting:
  assumes "get_status env h = Inr s"
  shows "(in_meeting s \<longrightarrow> 1 \<le> meeting_count s)
       \<and> (is_authenticated (token_json env) = Inr False \<longrightarrow> \<not> in_meeting s \<and> meeting_count s = 0)"
proof -
  from get_status_cases [OF assms] show ?thesis
  proof
    assume "is_authenticated (token_json env) = Inr False \<and> s = not_connected"
    then show ?thesis by (simp add: not_connected_def)
  next
    assume "is_authenticated (token_json env) = Inr True
            \<and> (\<exists>evs. get_todays_events env = Inr evs \<and> s = analyze_calendar evs h)"
    then obtain evs where "is_authenticated (token_json env) = Inr True" "s = analyze_calendar evs h"
      by blast
    then show ?thesis
      by (cases evs) (simp_all add: analyze_calendar_fields)
  qed
qed

theorem in_meeting_implies_meeting_witness:
  "(\<exists>s. get_status connected_calendar 10 = Inr s \<and> in_meeting s \<and> 1 \<le> meeting_count s)
   \<and> (\<exists>s. get_status offline_calendar 10 = Inr s
         \<and> is_authenticated (token_json offline_calendar) = Inr False
         \<and> \<not> in_meeting s \<and> meeting_count s = 0)"
proof -
  obtain s where s: "get_status connected_calendar 10 = Inr s" and m: "in_meeting s"
    by (simp add: connected_status analyze_calendar_fields)
  have t: "get_status offline_calendar 10 = Inr not_connected"
    by (simp add: get_status_def offline_not_authenticated)
  from in_meeting_implies_meeting [OF s] in_meeting_implies_meeting [OF t] s m t offline_not_authenticated
  show ?thesis by simp
qed

text \<open>
  C7, as the claim states it, fails: the status of a calendar that is not connected has
  neither \<open>meetings_remaining\<close> nor \<open>events\<close>.
\<close>

theorem sentinel_keys_counterexample:
  "get_status offline_calendar 10 = Inr not_connected
   \<and> ''meetings_remaining'' \<notin> set (status_keys not_connected)
   \<and> ''events'' \<notin> set (status_keys not_connected)"
  by (simp add: get_status_def offline_not_authenticated status_keys_def not_connected_def)

text \<open>
  C7, amended: a status returned by \<open>get_status\<close> for an authenticated calendar carries
  all nine field names; the status returned when the calendar is not authenticated
  carries the seven names \<open>availability\<close>, \<open>energy_estimate\<close>, \<open>best_contact_method\<close>,
  \<open>suggested_wait_time\<close>, \<open>context_summary\<close>, \<open>meeting_count\<close> and \<open>in_meeting\<close>.
\<close>

theorem get_status_keys:
  assumes "get_status env h = Inr s"
  shows "(is_authenticated (token_json env) = Inr True \<longrightarrow>
            status_keys s = [''availability'', ''energy_estimate'', ''best_contact_method'',
               ''suggested_wait_time'', ''context_summary'', ''meeting_count'',
               ''meetings_remaining'', ''in_meeting'', ''events''])
       \<and> (is_authenticated (token_json env) = Inr False \<longrightarrow>
            status_keys s = [''availability'', ''energy_estimate'', ''best_contact_method'',
               ''suggested_wait_time'', ''context_summary'', ''meeting_count'', ''in_meeting''])"
proof -
  from get_status_cases [OF assms] show ?thesis
  proof
    assume "is_authenticated (token_json env) = Inr False \<and> s = not_connected"
    then show ?thesis by (simp add: not_connected_def status_keys_def)
  next
    assume "is_authenticated (token_json env) = Inr True
            \<and> (\<exists>evs. get_todays_events env = Inr evs \<and> s = analyze_calendar evs h)"
    then obtain evs where "is_authenticated (token_json env) = Inr True" "s = analyze_calendar evs h"
      by blast
    then show ?thesis
      by (simp add: analyze_calendar_fields status_keys_def)
  qed
qed

theorem get_status_keys_witness:
  "(\<exists>s. get_status connected_calendar 10 = Inr s
        \<and> is_authenticated (token_json connected_calendar) = Inr True
        \<and> status_keys s = [''availability'', ''energy_estimate'', ''best_contact_method'',
               ''suggested_wait_time'', ''context_summary'', ''meeting_count'',
               ''meetings_remaining'', ''in_meeting'', ''events''])
   \<and> (\<exists>s. get_status offline_calendar 10 = Inr s
        \<and> is_authenticated (token_json offline_calendar) = Inr False
        \<and> status_keys s = [''availability'', ''energy_estimate'', ''best_contact_method'',
               ''suggested_wait_time'', ''context_summary'', ''meeting_count'', ''in_meeting''])"
proof -
  obtain s where s: "get_status connected_calendar 10 = Inr s"
    by (simp add: connected_status)
  have t: "get_status offline_calendar 10 = Inr not_connected"
    by (simp add: get_status_def offline_not_authenticated)
  from get_status_keys [OF s] get_status_keys [OF t] s t connected_authenticated offline_not_authenticated
  show ?thesis by simp
qed

section \<open>The orchestrator\<close>

lemma zip3_middle:
  "map (\<lambda>(d, m, x). f m) (zip ds (zip ms xs)) = map f (take (min (length ds) (length xs)) ms)"
proof (induction ds arbitrary: ms xs)
  case Nil
  then show ?case by simp
next
  case (Cons d ds)
  show ?case
  proof (cases ms)
    case Nil
    then show ?thesis by simp
  next
    case ms: (Cons m ms')
    show ?thesis
    proof (cases xs)
      case Nil
      then show ?thesis by simp
    next
      case (Cons x xs')
      with ms Cons.IH [of ms' xs'] show ?thesis by simp
    qed
  qed
qed

lemma retrieve_rows:
  assumes "idx q n = Inr results"
      and "documents results = ds # dr" and "metadatas results = ms # mr"
      and "distances results = xs # xr"
  shows "\<exists>docs. retrieve idx q n = Inr docs
           \<and> map source docs = map get_source (take (min (length ds) (length xs)) ms)"
proof -
  let ?docs = "map (\<lambda>(doc, meta, dist). \<lparr>content = doc, source = get_source meta, score = dist\<rparr>)
                   (zip ds (zip ms xs))"
  have "retrieve idx q n = Inr ?docs"
    using assms by (simp add: retrieve_def first_row_def)
  moreover have "map source ?docs = map (\<lambda>(d, m, x). get_source m) (zip ds (zip ms xs))"
    by (simp add: case_prod_beta)
  ultimately show ?thesis
    by (simp only: zip3_middle) blast
qed

lemma retrieve_no_documents:
  assumes "idx q n = Inr results"
      and "documents results = [] # dr" and "metadatas results = ms # mr"
      and "distances results = xs # xr"
  shows "retrieve idx q n = Inr []"
  using assms by (simp add: retrieve_def first_row_def)

lemma ask_unfold:
  assumes "retrieve (collection_query env) q 3 = Inr docs"
      and "get_status (calendar env) (user_hour env) = Inr st"
  shows "ask env q hist =
           (case chat_completion env (build_messages (context_string st docs) hist q) of
              Inl e \<Rightarrow> Inl e
            | Inr t \<Rightarrow> Inr \<lparr>response = t, sources = map source docs\<rparr>)"
  using assms by (simp add: ask_def generate_response_def)

text \<open>
  C3: when the calendar is not authenticated, \<open>get_status\<close> returns the fixed status
  with \<open>availability = unknown\<close>, \<open>meeting_count = 0\<close>, \<open>in_meeting = False\<close> and the fixed
  summary, whatever the provider's events and the hour, and it raises nothing; \<open>ask\<close>
  then returns an answer whenever the retrieval and the completion call succeed.
\<close>

theorem not_authenticated_sentinel:
  assumes "is_authenticated (token_json (calendar env)) = Inr False"
  shows "get_status (calendar env) h = Inr not_connected
       \<and> availability not_connected = ''unknown''
       \<and> meeting_count not_connected = 0
       \<and> \<not> in_meeting not_connected
       \<and> context_summary not_connected
           = ''Calendar not connected. Connect Google Calendar for availability info.''
       \<and> (\<forall>docs t. retrieve (collection_query env) q 3 = Inr docs
             \<longrightarrow> chat_completion env (build_messages (context_string not_connected docs) hist q) = Inr t
             \<longrightarrow> ask env q hist = Inr \<lparr>response = t, sources = map source docs\<rparr>)"
proof -
  have g: "get_status (calendar env) k = Inr not_connected" for k
    using assms by (simp add: get_status_def)
  have "ask env q hist = Inr \<lparr>response = t, sources = map source docs\<rparr>"
    if "retrieve (collection_query env) q 3 = Inr docs"
      and "chat_completion env (build_messages (context_string not_connected docs) hist q) = Inr t"
    for docs t
    using ask_unfold [OF that(1) g] that(2) by simp
  with g show ?thesis
    by (simp add: not_connected_def)
qed

theorem not_authenticated_sentinel_witness:
  "is_authenticated (token_json (calendar offline_engine)) = Inr False
   \<and> get_status (calendar offline_engine) 10 = Inr not_connected
   \<and> ask offline_engine ''Are you free now?'' []
       = Inr \<lparr>response = ''I am in a meeting right now, so a message works best.'',
              sources = [MStr ''resume.md'', MStr ''Pitch (Slide 2)'', MStr ''resume.md'']\<rparr>"
proof -
  have a: "is_authenticated (token_json (calendar offline_engine)) = Inr False"
    by (simp add: offline_engine_def offline_not_authenticated)
  have r: "retrieve (collection_query offline_engine) ''Are you free now?'' 3 =
             Inr [\<lparr>content = ''Aaran studied computer science.'', source = MStr ''resume.md'', score = 1 / 4\<rparr>,
                  \<lparr>content = ''Slide 2: the product'', source = MStr ''Pitch (Slide 2)'', score = 1 / 2\<rparr>,
                  \<lparr>content = ''Aaran interned twice.'', source = MStr ''resume.md'', score = 3 / 4\<rparr>]"
    by (simp add: offline_engine_def sample_engine_def sample_index_def retrieve_def first_row_def
                  get_source_def)
  have c: "chat_completion offline_engine msgs
             = Inr ''I am in a meeting right now, so a message works best.''" for msgs
    by (simp add: offline_engine_def sample_engine_def canned_completion_def)
  from not_authenticated_sentinel [OF a, of 10 "''Are you free now?''" "[]"] r c a show ?thesis
    by simp
qed

text \<open>
  C4: the \<open>sources\<close> of the answer of \<open>ask\<close> are the sources of the hits of the index,
  in the order in which the index returned them, duplicates included.
\<close>

theorem ask_sources_in_retrieval_order:
  assumes "collection_query env q 3 = Inr results"
      and "documents results = ds # dr" and "metadatas results = ms # mr"
      and "distances results = xs # xr"
      and "ask env q hist = Inr a"
  shows "sources a = map get_source (take (min (length ds) (length xs)) ms)"
proof -
  from retrieve_rows [of "collection_query env" q 3, OF assms(1-4)] obtain docs where
    d: "retrieve (collection_query env) q 3 = Inr docs"
       "map source docs = map get_source (take (min (length ds) (length xs)) ms)"
    by blast
  from assms(5) d(1) have "sources a = map source docs"
    by (auto simp: ask_def generate_response_def split: sum.splits)
  with d(2) show ?thesis by simp
qed

theorem ask_sources_in_retrieval_order_witness:
  "collection_query sample_engine ''Where did you study?'' 3
     = Inr \<lparr>documents = [[''Aaran studied computer science.'', ''Slide 2: the product'',
                            ''Aaran interned twice.'']],
            metadatas = [[[(''source'', MStr ''resume.md'')],
                          [(''source'', MStr ''Pitch (Slide 2)''), (''type'', MStr ''slides''),
                           (''presentation'', MStr ''Pitch''), (''slide_number'', MInt 2)],
                          [(''source'', MStr ''resume.md'')]]],
            distances = [[1 / 4, 1 / 2, 3 / 4]]\<rparr>
   \<and> (\<exists>a. ask sample_engine ''Where did you study?'' [] = Inr a
         \<and> sources a = [MStr ''resume.md'', MStr ''Pitch (Slide 2)'', MStr ''resume.md''])"
proof -
  let ?q = "''Where did you study?''"
  have i: "collection_query sample_engine ?q 3 = sample_index ?q 3"
    by (simp add: sample_engine_def)
  have "\<exists>a. ask sample_engine ?q [] = Inr a"
    by (simp add: ask_def generate_response_def sample_engine_def connected_status
                  canned_completion_def sample_index_def retrieve_def first_row_def)
  then obtain a where a: "ask sample_engine ?q [] = Inr a"
    by blast
  from ask_sources_in_retrieval_order [OF i [unfolded sample_index_def] _ _ _ a]
  have "sources a = [MStr ''resume.md'', MStr ''Pitch (Slide 2)'', MStr ''resume.md'']"
    by (simp add: get_source_def)
  with a i show ?thesis
    by (simp add: sample_index_def)
qed

text \<open>
  C5, as the claim states it, fails: when the index cannot be reached \<open>ask\<close> raises the
  index's exception; and with no documents the response is the text of the completion,
  which may be empty.
\<close>

theorem ask_index_failure_counterexample:
  "ask unreachable_engine ''Where did you study?'' [] = Inl IndexUnavailable
   \<and> ask silent_engine ''Where did you study?'' [] = Inr \<lparr>response = '''', sources = []\<rparr>"
  by (simp add: ask_def retrieve_def unreachable_engine_def unreachable_index_def sample_engine_def
                silent_engine_def empty_engine_def empty_index_def first_row_def
                generate_response_def connected_status silent_completion_def)

text \<open>
  C5, amended: when the index returns zero documents and the status is obtained, \<open>ask\<close>
  calls the completion with a context that holds only the live-status block, and when
  that call returns a text, \<open>ask\<close> returns it as the response with an empty list of
  sources.
\<close>

theorem ask_with_no_documents:
  assumes "collection_query env q 3 = Inr results"
      and "documents results = [] # dr" and "metadatas results = ms # mr"
      and "distances results = xs # xr"
      and "get_status (calendar env) (user_hour env) = Inr st"
      and "chat_completion env (build_messages (calendar_context st @ separator) hist q) = Inr t"
  shows "ask env q hist = Inr \<lparr>response = t, sources = []\<rparr>"
proof -
  have "retrieve (collection_query env) q 3 = Inr []"
    using retrieve_no_documents [of "collection_query env" q 3, OF assms(1-4)] .
  from ask_unfold [OF this assms(5)] assms(6) show ?thesis
    by (simp add: context_string_def)
qed

theorem ask_with_no_documents_witness:
  "collection_query empty_engine ''Where did you study?'' 3
     = Inr \<lparr>documents = [[]], metadatas = [[]], distances = [[]]\<rparr>
   \<and> (\<exists>st. get_status (calendar empty_engine) (user_hour empty_engine) = Inr st)
   \<and> ask empty_engine ''Where did you study?'' []
       = Inr \<lparr>response = ''I am in a meeting right now, so a message works best.'', sources = []\<rparr>"
proof -
  let ?q = "''Where did you study?''"
  have i: "collection_query empty_engine ?q 3
             = Inr \<lparr>documents = [[]], metadatas = [[]], distances = [[]]\<rparr>"
    by (simp add: empty_engine_def empty_index_def)
  have e: "calendar empty_engine = connected_calendar" "user_hour empty_engine = 10"
    by (simp_all add: empty_engine_def sample_engine_def)
  obtain st where st: "get_status connected_calendar 10 = Inr st"
    by (simp add: connected_status)
  have c: "chat_completion empty_engine msgs
             = Inr ''I am in a meeting right now, so a message works best.''" for msgs
    by (simp add: empty_engine_def sample_engine_def canned_completion_def)
  have "ask empty_engine ?q []
          = Inr \<lparr>response = ''I am in a meeting right now, so a message works best.'', sources = []\<rparr>"
    by (rule ask_with_no_documents [where dr = "[]" and ms = "[]" and mr = "[]" and xs = "[]" and xr = "[]"
                   and st = st, OF i _ _ _ _ c])
       (simp_all add: e st)
  with i e st show ?thesis by simp
qed

end
